theory Spec2Isabelle
  imports Main
begin

section \<open>Python values and the builtins the bot relies on\<close>

text \<open>
  The bot (\<^verbatim>\<open>telegram_bot.py\<close>) is a Python script. Its values are modelled as follows.
  A Python \<^verbatim>\<open>str\<close> is a \<^typ>\<open>string\<close>, one \<^typ>\<open>char\<close> per code point (code points below
  256). A Python \<^verbatim>\<open>int\<close> is an \<^typ>\<open>int\<close>. An exception that leaves a function is the
  \<open>Inl\<close> branch of a sum. The interpreter's configurable limit on the number of digits of
  an int/str conversion is not part of the model.
\<close>

datatype py_error =
    AttributeError | TypeError | ValueError | IndexError | JSONDecodeError | TransportError

text \<open>
  What \<^verbatim>\<open>json()\<close> hands back: \<^verbatim>\<open>None\<close>, booleans, integers, strings, lists and dicts
  (a dict is an association list, looked up with \<^const>\<open>map_of\<close>). Fractional numbers do
  not occur in the fields the bot reads and are left out.
\<close>

datatype json =
    JNull
  | JBool bool
  | JInt int
  | JStr string
  | JArr "json list"
  | JObj "(string \<times> json) list"

text \<open>Truth value of a Python object in a condition (\<^verbatim>\<open>if v:\<close>, \<^verbatim>\<open>a or b\<close>).\<close>

fun truthy :: "json \<Rightarrow> bool" where
  "truthy JNull = False"
| "truthy (JBool b) = b"
| "truthy (JInt n) = (n \<noteq> 0)"
| "truthy (JStr s) = (s \<noteq> [])"
| "truthy (JArr xs) = (xs \<noteq> [])"
| "truthy (JObj kvs) = (kvs \<noteq> [])"

text \<open>\<^verbatim>\<open>d.get(k, default)\<close> on a dict, and \<^verbatim>\<open>v.get(k)\<close> on any value: only a dict has \<^verbatim>\<open>get\<close>.\<close>

definition dict_get :: "(string \<times> json) list \<Rightarrow> string \<Rightarrow> json \<Rightarrow> json" where
  "dict_get kvs k dflt = (case map_of kvs k of None \<Rightarrow> dflt | Some v \<Rightarrow> v)"

fun py_get :: "json \<Rightarrow> string \<Rightarrow> json \<Rightarrow> py_error + json" where
  "py_get (JObj kvs) k dflt = Inr (dict_get kvs k dflt)"
| "py_get _ k dflt = Inl AttributeError"

text \<open>\<^verbatim>\<open>v == n\<close> for an integer literal \<open>n\<close>: a bool compares as 0 or 1.\<close>

fun py_eq_int :: "json \<Rightarrow> int \<Rightarrow> bool" where
  "py_eq_int (JInt m) n = (m = n)"
| "py_eq_int (JBool b) n = ((if b then 1 else 0) = n)"
| "py_eq_int _ n = False"

subsection \<open>Decimal conversion: \<^verbatim>\<open>str(n)\<close> and \<^verbatim>\<open>int(s)\<close>\<close>

definition digit_char :: "nat \<Rightarrow> char" where
  "digit_char d = char_of (48 + d)"

definition is_ascii_digit :: "char \<Rightarrow> bool" where
  "is_ascii_digit c = (48 \<le> (of_char c :: nat) \<and> (of_char c :: nat) \<le> 57)"

definition digit_val :: "char \<Rightarrow> nat" where
  "digit_val c = (of_char c :: nat) - 48"

fun digits :: "nat \<Rightarrow> string" where
  "digits n = (if n < 10 then [digit_char n] else digits (n div 10) @ [digit_char (n mod 10)])"

declare digits.simps [simp del]

definition py_str_int :: "int \<Rightarrow> string" where
  "py_str_int i = (if i < 0 then CHR ''-'' # digits (nat (- i)) else digits (nat i))"

text \<open>
  \<^verbatim>\<open>s.split(sep)\<close> with a one-character separator: every occurrence splits, empty pieces are
  kept, and the result is never empty.
\<close>

fun py_split :: "char \<Rightarrow> string \<Rightarrow> string list" where
  "py_split c [] = [[]]"
| "py_split c (x # xs) =
     (if x = c then [] # py_split c xs
      else (case py_split c xs of [] \<Rightarrow> [[x]] | w # ws \<Rightarrow> (x # w) # ws))"

text \<open>\<^verbatim>\<open>sep.join(xs)\<close>.\<close>

fun py_join :: "string \<Rightarrow> string list \<Rightarrow> string" where
  "py_join sep [] = []"
| "py_join sep [x] = x"
| "py_join sep (x # y # zs) = x @ sep @ py_join sep (y # zs)"

definition py_startswith :: "string \<Rightarrow> string \<Rightarrow> bool" where
  "py_startswith s p = (take (length p) s = p)"

text \<open>
  \<^verbatim>\<open>s.isdigit()\<close>: non-empty and every character a digit; below code point 256 the digits are
  \<^verbatim>\<open>0\<close> to \<^verbatim>\<open>9\<close> and the superscripts two, three and one (0xB2, 0xB3, 0xB9).
\<close>

definition is_unicode_digit :: "char \<Rightarrow> bool" where
  "is_unicode_digit c = (is_ascii_digit c \<or> (of_char c :: nat) \<in> {178, 179, 185})"

definition py_isdigit :: "string \<Rightarrow> bool" where
  "py_isdigit s = (s \<noteq> [] \<and> list_all is_unicode_digit s)"

text \<open>
  \<^verbatim>\<open>int(s)\<close>: white space is stripped at both ends (tab, LF, VT, FF, CR, space, NEL, NBSP),
  one sign may lead, and the rest is groups of ASCII digits separated by single underscores.
  Anything else raises \<^verbatim>\<open>ValueError\<close>.
\<close>

definition is_int_space :: "char \<Rightarrow> bool" where
  "is_int_space c = ((of_char c :: nat) \<in> {9, 10, 11, 12, 13, 32, 133, 160})"

definition py_strip :: "string \<Rightarrow> string" where
  "py_strip s = rev (dropWhile is_int_space (rev (dropWhile is_int_space s)))"

definition digits_val :: "string \<Rightarrow> nat" where
  "digits_val s = foldl (\<lambda>a c. 10 * a + digit_val c) 0 s"

definition parse_nat :: "string \<Rightarrow> py_error + nat" where
  "parse_nat s =
     (let groups = py_split CHR ''_'' s
      in if list_all (\<lambda>g. g \<noteq> [] \<and> list_all is_ascii_digit g) groups
         then Inr (digits_val (concat groups))
         else Inl ValueError)"

definition py_int :: "string \<Rightarrow> py_error + int" where
  "py_int s =
     (case py_strip s of
        [] \<Rightarrow> Inl ValueError
      | c # r \<Rightarrow>
          if c = CHR ''-'' then map_sum id (\<lambda>n. - int n) (parse_nat r)
          else if c = CHR ''+'' then map_sum id int (parse_nat r)
          else map_sum id int (parse_nat (c # r)))"

text \<open>\<^verbatim>\<open>[int(s) for s in xs]\<close>: the first conversion that raises ends the comprehension.\<close>

fun map_int :: "string list \<Rightarrow> py_error + int list" where
  "map_int [] = Inr []"
| "map_int (s # ss) =
     (case py_int s of
        Inl e \<Rightarrow> Inl e
      | Inr n \<Rightarrow> (case map_int ss of Inl e \<Rightarrow> Inl e | Inr ns \<Rightarrow> Inr (n # ns)))"

text \<open>
  \<^verbatim>\<open>str(v)\<close> as an f-string applies it. The text of a list or a dict is Python's \<^verbatim>\<open>repr\<close>,
  which is taken as the parameter \<open>repr\<close>.
\<close>

fun py_format :: "(json \<Rightarrow> string) \<Rightarrow> json \<Rightarrow> string" where
  "py_format repr JNull = ''None''"
| "py_format repr (JBool b) = (if b then ''True'' else ''False'')"
| "py_format repr (JInt n) = py_str_int n"
| "py_format repr (JStr s) = s"
| "py_format repr v = repr v"

section \<open>The request to the backend: \<^verbatim>\<open>request_overseerr\<close>\<close>

text \<open>
  An HTTP response as the client library presents it: the success flag (\<^verbatim>\<open>is_success\<close> of
  httpx, \<^verbatim>\<open>ok\<close> of requests), the status code, the body text (\<^verbatim>\<open>resp.text\<close>), and
  what \<^verbatim>\<open>json()\<close> returns (\<open>None\<close> when it raises). A call that raises instead of answering is \<open>Inl\<close>.
\<close>

record response =
  is_success :: bool
  status_code :: int
  body_text :: string
  json_body :: "json option"

type_synonym payload = "(string \<times> json) list"

definition seasons_given :: "int list option \<Rightarrow> bool" where
  "seasons_given seasons = (case seasons of None \<Rightarrow> False | Some ss \<Rightarrow> ss \<noteq> [])"

definition request_payload :: "int \<Rightarrow> string \<Rightarrow> int list option \<Rightarrow> payload" where
  "request_payload media_id media_type seasons =
     [(''mediaId'', JInt media_id), (''mediaType'', JStr media_type)] @
     (if media_type = ''tv'' \<and> seasons_given seasons
      then [(''seasons'', JArr (map JInt (the seasons)))] else [])"

definition error_message_of :: "(json \<Rightarrow> string) \<Rightarrow> response \<Rightarrow> string" where
  "error_message_of repr resp =
     (let dflt = ''Status: '' @ py_str_int (status_code resp)
      in case json_body resp of
           None \<Rightarrow> dflt
         | Some body \<Rightarrow>
             (case py_get body ''message'' JNull of
                Inl e \<Rightarrow> dflt
              | Inr error_details \<Rightarrow>
                  if truthy error_details then py_format repr error_details else dflt))"

text \<open>
  The result is the payload that was posted together with the message returned, or the
  exception the POST raised.
\<close>

definition request_overseerr ::
  "(json \<Rightarrow> string) \<Rightarrow> (payload \<Rightarrow> py_error + response) \<Rightarrow>
     int \<Rightarrow> string \<Rightarrow> int list option \<Rightarrow> payload \<times> (py_error + string)" where
  "request_overseerr repr post media_id media_type seasons =
     (let data = request_payload media_id media_type seasons
      in (data,
          case post data of
            Inl e \<Rightarrow> Inl e
          | Inr resp \<Rightarrow>
              if is_success resp then
                Inr (''Successfully requested '' @ media_type @ '' with ID '' @
                     py_str_int media_id @
                     (if seasons_given seasons
                      then '' (Seasons: '' @ py_join '', '' (map py_str_int (the seasons)) @ '')''
                      else []) @ ''.'')
              else
                Inr (''Failed to request '' @ media_type @ '' with ID '' @
                     py_str_int media_id @ ''. '' @ error_message_of repr resp)))"

section \<open>Offering a request: the callback data built in \<^verbatim>\<open>handle_message\<close>\<close>

text \<open>The agent's structured answer (the pydantic model \<^verbatim>\<open>OverseerrResponse\<close>).\<close>

record OverseerrResponse =
  answer :: string
  action :: "string option"
  media_id :: "int option"
  media_type :: "string option"
  seasons :: "int list option"
  poster_url :: "string option"

text \<open>A button is its label and its callback data; a keyboard is rows of buttons.\<close>

type_synonym button = "string \<times> string"
type_synonym keyboard = "button list list"

text \<open>
  Lines 250 to 287: the keyboard offered for a structured answer, if any. \<^verbatim>\<open>seasons or []\<close>
  turns an absent list into the empty one; \<^verbatim>\<open>if media_id and media_type\<close> excludes an absent
  or zero id and an absent or empty type.
\<close>

definition offer_keyboard :: "OverseerrResponse \<Rightarrow> keyboard option" where
  "offer_keyboard so =
     (if action so = Some ''offer_request'' then
        (let ss = (case seasons so of None \<Rightarrow> [] | Some xs \<Rightarrow> xs)
         in case (media_id so, media_type so) of
              (Some mid, Some mt) \<Rightarrow>
                if mid \<noteq> 0 \<and> mt \<noteq> [] then
                  (let seasons_str =
                         (if ss \<noteq> [] \<and> mt = ''tv''
                          then ''_'' @ py_join ''-'' (map py_str_int (sort ss)) else []);
                       callback_data = ''request_'' @ mt @ ''_'' @ py_str_int mid @ seasons_str;
                       button_text =
                         (if seasons_str \<noteq> []
                          then ''Yes, request season(s) '' @
                               py_join '', '' (map py_str_int (sort ss))
                          else ''Yes, request this '' @ mt)
                   in Some [[(button_text, callback_data)],
                            [(''No, cancel'', ''cancel_request'')]])
                else None
            | _ \<Rightarrow> None)
      else None)"

text \<open>
  What the agent returns: the contents of its messages (absent when the key is missing)
  and the structured answer. The agent is a remote language model; what it answers is an
  input here.
\<close>

record agent_response =
  messages :: "string list option"
  structured_response :: "OverseerrResponse option"

text \<open>
  Lines 229 to 287 of \<^verbatim>\<open>handle_message\<close>: the reply text, the poster URL and the keyboard
  computed from the agent's response (the values logged at lines 289 to 291).
\<close>

definition reply_values :: "agent_response \<Rightarrow> string \<times> string option \<times> keyboard option" where
  "reply_values r =
     (let final_messages = (case messages r of None \<Rightarrow> [] | Some ms \<Rightarrow> ms)
      in if final_messages = [] then
           (''Sorry, I encountered an issue processing your request.'', None, None)
         else
           (case structured_response r of
              None \<Rightarrow> (last final_messages, None, None)
            | Some so \<Rightarrow> (last final_messages, poster_url so, offer_keyboard so)))"

text \<open>
  Lines 293 to 313: the messages \<^verbatim>\<open>handle_message\<close> hands to the chat, in order, each a text
  and a keyboard. With a poster URL that is present and not empty (\<^verbatim>\<open>if poster_url:\<close>) the
  text is the reply, a line feed and the URL, and when that send raises
  (\<open>poster_send_raises\<close>) the reply text alone follows; otherwise the reply text alone is
  sent. The agent's call and the plain reply are taken to succeed.
\<close>

definition handle_message :: "bool \<Rightarrow> agent_response \<Rightarrow> (string \<times> keyboard option) list" where
  "handle_message poster_send_raises r =
     (case reply_values r of
        (reply_text, purl, kb) \<Rightarrow>
          (case purl of
             None \<Rightarrow> [(reply_text, kb)]
           | Some u \<Rightarrow>
               if u \<noteq> [] then
                 (reply_text @ [CHR 0x0A] @ u, kb) #
                 (if poster_send_raises then [(reply_text, kb)] else [])
               else [(reply_text, kb)]))"

section \<open>Button presses: \<^verbatim>\<open>button_callback\<close>\<close>

text \<open>
  Lines 338 to 349, the parsing inside the \<^verbatim>\<open>try\<close>: media type, media id and seasons of a
  callback data string, or the exception raised (\<^verbatim>\<open>IndexError\<close> for a missing segment,
  \<^verbatim>\<open>ValueError\<close> from \<^verbatim>\<open>int\<close>).
\<close>

definition parse_callback :: "string \<Rightarrow> py_error + (string \<times> int \<times> int list option)" where
  "parse_callback callback_data =
     (case py_split CHR ''_'' callback_data of
        p0 # mt # idseg # rest \<Rightarrow>
          (case py_int idseg of
             Inl e \<Rightarrow> Inl e
           | Inr mid \<Rightarrow>
               (case rest of
                  seasons_str # _ \<Rightarrow>
                    if mt = ''tv'' then
                      (case map_int (filter py_isdigit (py_split CHR ''-'' seasons_str)) of
                         Inl e \<Rightarrow> Inl e
                       | Inr ss \<Rightarrow> Inr (mt, mid, if ss = [] then None else Some ss))
                    else Inr (mt, mid, None)
                | [] \<Rightarrow> Inr (mt, mid, None)))
      | _ \<Rightarrow> Inl IndexError)"

text \<open>
  The handler, from the callback data (\<open>None\<close> when the query carries none) to the payloads
  it posts to the backend and the text it puts in place of the message, if any.
\<close>

definition button_callback ::
  "(json \<Rightarrow> string) \<Rightarrow> (payload \<Rightarrow> py_error + response) \<Rightarrow>
     string option \<Rightarrow> payload list \<times> string option" where
  "button_callback repr post data =
     (case data of
        None \<Rightarrow> ([], None)
      | Some callback_data \<Rightarrow>
          if callback_data = [] then ([], None)
          else if py_startswith callback_data ''request_'' then
            (case parse_callback callback_data of
               Inl e \<Rightarrow> ([], Some ''Sorry, there was an error processing your request.'')
             | Inr (mt, mid, ss) \<Rightarrow>
                 (case request_overseerr repr post mid mt ss of
                    (sent, Inl e) \<Rightarrow>
                      ([sent], Some ''Sorry, there was an error processing your request.'')
                  | (sent, Inr result_message) \<Rightarrow>
                      ([sent], Some (''Request result: '' @ result_message))))
          else if callback_data = ''cancel_request'' then ([], Some ''Request cancelled.'')
          else ([], None))"

section \<open>The search tool: \<^verbatim>\<open>search_overseerr\<close>\<close>

definition IMAGE_TMDB_URL :: string where
  "IMAGE_TMDB_URL = ''https://image.tmdb.org/t/p/w600_and_h900_bestv2''"

text \<open>Sequencing of steps that may raise.\<close>

fun py_bind :: "py_error + 'a \<Rightarrow> ('a \<Rightarrow> py_error + 'b) \<Rightarrow> py_error + 'b" where
  "py_bind (Inl e) f = Inl e"
| "py_bind (Inr x) f = f x"

text \<open>
  \<^verbatim>\<open>for r in v\<close>: a list gives its elements, a string its characters, a dict its keys;
  nothing else can be iterated.
\<close>

fun py_iter :: "json \<Rightarrow> py_error + json list" where
  "py_iter (JArr xs) = Inr xs"
| "py_iter (JStr s) = Inr (map (\<lambda>c. JStr [c]) s)"
| "py_iter (JObj kvs) = Inr (map (\<lambda>kv. JStr (fst kv)) kvs)"
| "py_iter _ = Inl TypeError"

text \<open>
  \<^verbatim>\<open>v[:n]\<close>: lists and strings can be sliced; any other value raises (\<^verbatim>\<open>TypeError\<close>; for a
  dict, \<^verbatim>\<open>KeyError\<close> from Python 3.12 on).
\<close>

fun py_slice_to :: "nat \<Rightarrow> json \<Rightarrow> py_error + json" where
  "py_slice_to n (JArr xs) = Inr (JArr (take n xs))"
| "py_slice_to n (JStr s) = Inr (JStr (take n s))"
| "py_slice_to n _ = Inl TypeError"

text \<open>
  Line 52: \<^verbatim>\<open>[r for r in results if r.get("mediaType") == media_type]\<close>, with \<open>mt\<close> for
  the media type asked for.
\<close>

fun filter_media_type :: "string \<Rightarrow> json list \<Rightarrow> py_error + json list" where
  "filter_media_type mt [] = Inr []"
| "filter_media_type mt (r # rs) =
     py_bind (py_get r ''mediaType'' JNull) (\<lambda>v.
     py_bind (filter_media_type mt rs) (\<lambda>ys.
       Inr (if v = JStr mt then r # ys else ys)))"

text \<open>Lines 56 to 70: the status text from the value of \<^verbatim>\<open>mediaInfo\<close>.\<close>

definition derive_status :: "json \<Rightarrow> py_error + string" where
  "derive_status media_info =
     (if truthy media_info then
        py_bind (py_get media_info ''status'' JNull) (\<lambda>media_status.
        py_bind (py_get media_info ''status4k'' JNull) (\<lambda>media_status_4k.
          Inr (if py_eq_int media_status 5 \<or> py_eq_int media_status_4k 5 then ''Available''
               else if list_ex (py_eq_int media_status) [2, 3, 4] \<or>
                       list_ex (py_eq_int media_status_4k) [2, 3, 4] then ''Requested''
               else ''Not Requested'')))
      else Inr ''Not Requested'')"

text \<open>Lines 56 to 85: one backend result turned into the dict that is returned.\<close>

definition process_result :: "(json \<Rightarrow> string) \<Rightarrow> json \<Rightarrow> py_error + json" where
  "process_result repr r =
     py_bind (py_get r ''mediaInfo'' JNull) (\<lambda>media_info.
     py_bind (derive_status media_info) (\<lambda>status.
     py_bind (py_get r ''posterPath'' JNull) (\<lambda>poster_path.
     py_bind (py_get r ''title'' JNull) (\<lambda>title.
     py_bind (py_get r ''name'' JNull) (\<lambda>name.
     py_bind (py_get r ''releaseDate'' (JStr [])) (\<lambda>release_date.
     py_bind (py_slice_to 4 release_date) (\<lambda>year.
     py_bind (py_get r ''id'' JNull) (\<lambda>ident.
     py_bind (py_get r ''mediaType'' JNull) (\<lambda>mtype.
     py_bind (py_get r ''overview'' JNull) (\<lambda>overview.
       Inr (JObj
         [(''title'', if truthy title then title else name),
          (''year'', year),
          (''media_id'', ident),
          (''media_type'', mtype),
          (''overview'', overview),
          (''status'', JStr status),
          (''poster_url'',
             if truthy poster_path then JStr (IMAGE_TMDB_URL @ py_format repr poster_path)
             else JNull)])))))))))))"

text \<open>The loop of lines 54 to 85 over the results kept.\<close>

fun process_all :: "(json \<Rightarrow> string) \<Rightarrow> json list \<Rightarrow> py_error + json list" where
  "process_all repr [] = Inr []"
| "process_all repr (r # rs) =
     py_bind (process_result repr r) (\<lambda>c.
     py_bind (process_all repr rs) (\<lambda>cs. Inr (c # cs)))"

text \<open>
  The tool, from the outcome of the GET (the backend's answer to the query, or the
  exception the call raised) and the media type asked for (\<open>mt\<close>), to the list it returns.
\<close>

definition search_overseerr ::
  "(json \<Rightarrow> string) \<Rightarrow> py_error + response \<Rightarrow> string \<Rightarrow> py_error + json list" where
  "search_overseerr repr got mt =
     py_bind got (\<lambda>resp.
       if is_success resp then
         py_bind (case json_body resp of None \<Rightarrow> Inl JSONDecodeError | Some b \<Rightarrow> Inr b) (\<lambda>body.
         py_bind (py_get body ''results'' (JArr [])) (\<lambda>results.
         py_bind (if mt \<noteq> []
                  then py_bind (py_iter results) (\<lambda>rs.
                       py_bind (filter_media_type mt rs) (\<lambda>ys. Inr (JArr ys)))
                  else Inr results) (\<lambda>results.
         py_bind (py_slice_to 2 results) (\<lambda>first_two.
         py_bind (py_iter first_two) (\<lambda>rs.
           process_all repr rs)))))
       else Inr [JStr (body_text resp)])"

section \<open>The specification's wording, for comparison\<close>

text \<open>
  The token format as the specification words it: the prefix, the media type, the media id,
  and for a tv token with a non-empty season set the seasons in ascending order, joined by
  dashes.
\<close>

definition spec_encode :: "string \<Rightarrow> int \<Rightarrow> int set \<Rightarrow> string" where
  "spec_encode mt mid S =
     ''request_'' @ mt @ ''_'' @ py_str_int mid @
     (if mt = ''tv'' \<and> S \<noteq> {}
      then ''_'' @ py_join ''-'' (map py_str_int (sorted_list_of_set S)) else [])"

text \<open>
  The status as the specification derives it from the two codes (\<open>None\<close> for null): 5 on
  either is available, 2, 3 or 4 on either is requested, anything else is not requested.
\<close>

definition spec_status :: "int option \<Rightarrow> int option \<Rightarrow> string" where
  "spec_status a b =
     (if a = Some 5 \<or> b = Some 5 then ''Available''
      else if a \<in> {Some 2, Some 3, Some 4} \<or> b \<in> {Some 2, Some 3, Some 4} then ''Requested''
      else ''Not Requested'')"

definition code_json :: "int option \<Rightarrow> json" where
  "code_json a = (case a of None \<Rightarrow> JNull | Some n \<Rightarrow> JInt n)"

text \<open>
  A backend result of the shape the search interface declares: a dict whose \<^verbatim>\<open>mediaInfo\<close> is
  absent, null or a dict, and whose \<^verbatim>\<open>releaseDate\<close> is absent or a string.
\<close>

fun well_typed_result :: "json \<Rightarrow> bool" where
  "well_typed_result (JObj kvs) =
     ((case dict_get kvs ''mediaInfo'' JNull of JNull \<Rightarrow> True | JObj mi \<Rightarrow> True | _ \<Rightarrow> False) \<and>
      (case dict_get kvs ''releaseDate'' (JStr []) of JStr s \<Rightarrow> True | _ \<Rightarrow> False))"
| "well_typed_result _ = False"

section \<open>Facts about the string builtins\<close>

lemma of_char_digit_char: "d < 10 \<Longrightarrow> (of_char (digit_char d) :: nat) = 48 + d"
  by (simp add: digit_char_def)

lemma is_ascii_digit_digit_char: "d < 10 \<Longrightarrow> is_ascii_digit (digit_char d)"
  by (simp add: is_ascii_digit_def of_char_digit_char)

lemma digit_val_digit_char: "d < 10 \<Longrightarrow> digit_val (digit_char d) = d"
  by (simp add: digit_val_def of_char_digit_char)

lemma digits_all_digit: "list_all is_ascii_digit (digits n)"
proof (induction n rule: digits.induct)
  case (1 n)
  show ?case
  proof (cases "n < 10")
    case True
    then show ?thesis by (subst digits.simps) (simp add: is_ascii_digit_digit_char)
  next
    case False
    with 1 show ?thesis by (subst digits.simps) (simp add: is_ascii_digit_digit_char)
  qed
qed

lemma digits_nonempty: "digits n \<noteq> []"
  by (subst digits.simps) simp

lemma digits_val_append: "digits_val (s @ [c]) = 10 * digits_val s + digit_val c"
  by (simp add: digits_val_def)

lemma digits_val_digits: "digits_val (digits n) = n"
proof (induction n rule: digits.induct)
  case (1 n)
  show ?case
  proof (cases "n < 10")
    case True
    then show ?thesis
      by (subst digits.simps) (simp add: digits_val_def digit_val_digit_char)
  next
    case False
    with 1 show ?thesis
      by (subst digits.simps) (simp add: digits_val_append digit_val_digit_char)
  qed
qed

lemma py_split_nonempty: "py_split c s \<noteq> []"
  by (induction s) (auto split: list.splits)

lemma py_split_notin: "c \<notin> set s \<Longrightarrow> py_split c s = [s]"
  by (induction s) auto

lemma py_split_append: "c \<notin> set a \<Longrightarrow> py_split c (a @ c # b) = a # py_split c b"
  by (induction a) auto

lemma set_py_join: "set (py_join sep xs) \<subseteq> set sep \<union> \<Union> (set ` set xs)"
  by (induction sep xs rule: py_join.induct) auto

lemma py_split_join:
  "xs \<noteq> [] \<Longrightarrow> \<forall>x\<in>set xs. c \<notin> set x \<Longrightarrow> py_split c (py_join [c] xs) = xs"
proof (induction "[c]" xs rule: py_join.induct)
  case 1
  then show ?case by simp
next
  case (2 x)
  then show ?case by (simp add: py_split_notin)
next
  case (3 x y zs)
  then show ?case by (simp add: py_split_append)
qed


lemma digits_set: "c \<in> set (digits n) \<Longrightarrow> is_ascii_digit c"
  using digits_all_digit [of n] by (simp add: list_all_iff)

lemma ascii_digit_not_special:
  "is_ascii_digit c \<Longrightarrow> c \<noteq> CHR ''_'' \<and> c \<noteq> CHR ''-'' \<and> c \<noteq> CHR ''+'' \<and> \<not> is_int_space c"
  by (auto simp: is_ascii_digit_def is_int_space_def)

lemma digits_no_underscore: "CHR ''_'' \<notin> set (digits n)"
  using digits_set ascii_digit_not_special by blast

lemma digits_no_dash: "CHR ''-'' \<notin> set (digits n)"
  using digits_set ascii_digit_not_special by blast

lemma py_strip_id:
  assumes "\<forall>c\<in>set s. \<not> is_int_space c"
  shows "py_strip s = s"
proof -
  have a: "dropWhile is_int_space s = s"
    using assms by (cases s) auto
  have b: "dropWhile is_int_space (rev s) = rev s"
    using assms by (cases "rev s") (auto simp: rev_eq_Cons_iff)
  show ?thesis by (simp add: py_strip_def a b)
qed

lemma parse_nat_digits: "parse_nat (digits n) = Inr n"
  by (simp add: parse_nat_def py_split_notin digits_no_underscore digits_nonempty
      digits_all_digit digits_val_digits)

lemma py_int_digits: "py_int (digits n) = Inr (int n)"
proof -
  have s: "py_strip (digits n) = digits n"
    by (rule py_strip_id) (use digits_set ascii_digit_not_special in blast)
  obtain c r where cr: "digits n = c # r"
    using digits_nonempty [of n] by (cases "digits n") auto
  then have "is_ascii_digit c"
    using digits_set [of c n] by simp
  then have "c \<noteq> CHR ''-''" "c \<noteq> CHR ''+''"
    using ascii_digit_not_special by blast+
  moreover have "py_strip (c # r) = c # r" "parse_nat (c # r) = Inr n"
    using s parse_nat_digits [of n] by (simp_all add: cr)
  ultimately have "py_int (c # r) = Inr (int n)"
    by (simp add: py_int_def)
  then show ?thesis by (simp add: cr)
qed

lemma py_int_minus_digits: "py_int (CHR ''-'' # digits n) = Inr (- int n)"
proof -
  have "\<not> is_int_space CHR ''-''"
    by (simp add: is_int_space_def)
  then have "py_strip (CHR ''-'' # digits n) = CHR ''-'' # digits n"
    using digits_set ascii_digit_not_special by (intro py_strip_id) auto
  then show ?thesis
    by (simp add: py_int_def parse_nat_digits)
qed

lemma py_int_str_int: "py_int (py_str_int i) = Inr i"
  by (simp add: py_str_int_def py_int_digits py_int_minus_digits)

lemma str_int_no_underscore: "CHR ''_'' \<notin> set (py_str_int i)"
  by (simp add: py_str_int_def digits_no_underscore)

lemma str_int_no_dash: "0 \<le> i \<Longrightarrow> CHR ''-'' \<notin> set (py_str_int i)"
  by (simp add: py_str_int_def digits_no_dash)

lemma py_isdigit_str_int: "0 \<le> i \<Longrightarrow> py_isdigit (py_str_int i)"
  using digits_all_digit [of "nat i"]
  by (simp add: py_str_int_def py_isdigit_def digits_nonempty list_all_iff is_unicode_digit_def)

lemma map_int_str: "map_int (map py_str_int ns) = Inr ns"
  by (induction ns) (simp_all add: py_int_str_int)

lemma filter_isdigit_str: "\<forall>n\<in>set ns. 0 \<le> n \<Longrightarrow> filter py_isdigit (map py_str_int ns) = map py_str_int ns"
  by (induction ns) (simp_all add: py_isdigit_str_int)

lemma join_no_underscore: "CHR ''_'' \<notin> set (py_join ''-'' (map py_str_int ns))"
  using set_py_join [of "''-''" "map py_str_int ns"] str_int_no_underscore by auto

lemma split_seasons:
  assumes "ns \<noteq> []" "\<forall>n\<in>set ns. 0 \<le> n"
  shows "py_split CHR ''-'' (py_join ''-'' (map py_str_int ns)) = map py_str_int ns"
  using assms by (intro py_split_join) (auto simp: str_int_no_dash)

lemma split_request_plain:
  assumes "CHR ''_'' \<notin> set mt"
  shows "py_split CHR ''_'' (''request_'' @ mt @ ''_'' @ py_str_int mid) =
          [''request'', mt, py_str_int mid]"
proof -
  have "py_split CHR ''_'' (''request'' @ CHR ''_'' # (mt @ CHR ''_'' # py_str_int mid)) =
        ''request'' # py_split CHR ''_'' (mt @ CHR ''_'' # py_str_int mid)"
    by (rule py_split_append) simp
  also have "py_split CHR ''_'' (mt @ CHR ''_'' # py_str_int mid) = mt # py_split CHR ''_'' (py_str_int mid)"
    using assms by (rule py_split_append)
  also have "py_split CHR ''_'' (py_str_int mid) = [py_str_int mid]"
    by (rule py_split_notin) (rule str_int_no_underscore)
  finally show ?thesis by simp
qed

lemma split_request_seasons:
  assumes "CHR ''_'' \<notin> set mt"
  shows "py_split CHR ''_'' (''request_'' @ mt @ ''_'' @ py_str_int mid @ ''_'' @
            py_join ''-'' (map py_str_int ns)) =
          [''request'', mt, py_str_int mid, py_join ''-'' (map py_str_int ns)]"
proof -
  let ?j = "py_join ''-'' (map py_str_int ns)"
  have "py_split CHR ''_'' (''request'' @ CHR ''_'' # (mt @ CHR ''_'' # (py_str_int mid @ CHR ''_'' # ?j))) =
        ''request'' # py_split CHR ''_'' (mt @ CHR ''_'' # (py_str_int mid @ CHR ''_'' # ?j))"
    by (rule py_split_append) simp
  also have "py_split CHR ''_'' (mt @ CHR ''_'' # (py_str_int mid @ CHR ''_'' # ?j)) =
             mt # py_split CHR ''_'' (py_str_int mid @ CHR ''_'' # ?j)"
    using assms by (rule py_split_append)
  also have "py_split CHR ''_'' (py_str_int mid @ CHR ''_'' # ?j) = py_str_int mid # py_split CHR ''_'' ?j"
    by (rule py_split_append) (rule str_int_no_underscore)
  also have "py_split CHR ''_'' ?j = [?j]"
    by (rule py_split_notin) (rule join_no_underscore)
  finally show ?thesis by simp
qed

lemma parse_callback_plain:
  assumes "CHR ''_'' \<notin> set mt"
  shows "parse_callback (''request_'' @ mt @ ''_'' @ py_str_int mid) = Inr (mt, mid, None)"
  unfolding parse_callback_def split_request_plain [OF assms]
  by (simp add: py_int_str_int)

lemma parse_callback_seasons:
  assumes "ns \<noteq> []" "\<forall>n\<in>set ns. 0 \<le> n"
  shows "parse_callback (''request_'' @ ''tv'' @ ''_'' @ py_str_int mid @ ''_'' @
            py_join ''-'' (map py_str_int ns)) = Inr (''tv'', mid, Some ns)"
proof -
  have u: "CHR ''_'' \<notin> set ''tv''" by simp
  show ?thesis
    unfolding parse_callback_def split_request_seasons [OF u]
    using assms
    by (simp add: py_int_str_int split_seasons filter_isdigit_str map_int_str)
qed

section \<open>Facts about the keyboard and the parser\<close>

lemma sorted_list_of_set_distinct: "distinct ss \<Longrightarrow> sorted_list_of_set (set ss) = sort ss"
  by (simp add: sorted_list_of_set_sort_remdups distinct_remdups_id)

lemma offer_keyboard_tv_seasons:
  assumes "action so = Some ''offer_request''" "media_id so = Some mid" "mid \<noteq> 0"
    "media_type so = Some ''tv''" "seasons so = Some ss" "ss \<noteq> []"
  shows "offer_keyboard so =
    Some [[(''Yes, request season(s) '' @ py_join '', '' (map py_str_int (sort ss)),
            ''request_'' @ ''tv'' @ ''_'' @ py_str_int mid @ ''_'' @
              py_join ''-'' (map py_str_int (sort ss)))],
          [(''No, cancel'', ''cancel_request'')]]"
  using assms by (simp add: offer_keyboard_def)

lemma offer_keyboard_plain:
  assumes "action so = Some ''offer_request''" "media_id so = Some mid" "mid \<noteq> 0"
    "media_type so = Some mt" "mt \<noteq> []"
    "mt \<noteq> ''tv'' \<or> seasons so = None \<or> seasons so = Some []"
  shows "offer_keyboard so =
    Some [[(''Yes, request this '' @ mt, ''request_'' @ mt @ ''_'' @ py_str_int mid)],
          [(''No, cancel'', ''cancel_request'')]]"
  using assms by (auto simp: offer_keyboard_def)

lemma button_callback_no_prefix:
  "\<not> py_startswith s ''request_'' \<Longrightarrow> fst (button_callback repr post (Some s)) = []"
  by (simp add: button_callback_def)

lemma button_callback_parse_error:
  "py_startswith s ''request_'' \<Longrightarrow> parse_callback s = Inl e \<Longrightarrow>
   button_callback repr post (Some s) =
     ([], Some ''Sorry, there was an error processing your request.'')"
  by (auto simp: button_callback_def py_startswith_def)

lemma button_callback_parsed:
  "py_startswith s ''request_'' \<Longrightarrow> parse_callback s = Inr (mt, mid, ss) \<Longrightarrow>
   fst (button_callback repr post (Some s)) = [request_payload mid mt ss]"
  by (auto simp: button_callback_def py_startswith_def request_overseerr_def Let_def
      split: sum.splits)

section \<open>Facts about the search tool\<close>

lemma py_bind_Inr_iff: "py_bind m f = Inr y \<longleftrightarrow> (\<exists>x. m = Inr x \<and> f x = Inr y)"
  by (cases m) auto

lemma filter_media_type_dicts:
  "list_all well_typed_result rs \<Longrightarrow>
   filter_media_type mt rs = Inr (filter (\<lambda>r. py_get r ''mediaType'' JNull = Inr (JStr mt)) rs)"
proof (induction rs)
  case Nil
  then show ?case by simp
next
  case (Cons r rs)
  then obtain kvs where "r = JObj kvs"
    by (cases r) auto
  with Cons show ?case by simp
qed

lemma derive_status_total:
  "v = JNull \<or> (\<exists>mi. v = JObj mi) \<Longrightarrow> \<exists>st. derive_status v = Inr st"
  by (auto simp: derive_status_def)

lemma well_typed_process:
  assumes "well_typed_result r"
  shows "\<exists>c. process_result repr r = Inr c"
proof -
  from assms obtain kvs where r: "r = JObj kvs"
    by (cases r) auto
  from assms r have "dict_get kvs ''mediaInfo'' JNull = JNull \<or>
      (\<exists>mi. dict_get kvs ''mediaInfo'' JNull = JObj mi)"
    by (auto split: json.splits)
  then obtain st where st: "derive_status (dict_get kvs ''mediaInfo'' JNull) = Inr st"
    using derive_status_total by blast
  from assms r obtain s where s: "dict_get kvs ''releaseDate'' (JStr []) = JStr s"
    by (auto split: json.splits)
  show ?thesis
    by (simp add: process_result_def r st s)
qed

lemma process_all_ok:
  "list_all well_typed_result rs \<Longrightarrow>
   \<exists>cs. process_all repr rs = Inr cs \<and> map Inr cs = map (process_result repr) rs"
proof (induction rs)
  case Nil
  then show ?case by simp
next
  case (Cons r rs)
  then obtain c cs where "process_result repr r = Inr c" "process_all repr rs = Inr cs"
    "map Inr cs = map (process_result repr) rs"
    using well_typed_process [of r repr] by auto
  then show ?case by simp
qed

lemma process_all_length: "process_all repr rs = Inr cs \<Longrightarrow> length cs = length rs"
  by (induction rs arbitrary: cs) (auto simp: py_bind_Inr_iff)

lemma slice_iter_length:
  "py_slice_to n v = Inr tp \<Longrightarrow> py_iter tp = Inr rs \<Longrightarrow> length rs \<le> n"
  by (cases v) auto

lemma search_length:
  assumes "search_overseerr repr (Inr resp) mt = Inr cs" "is_success resp"
  shows "length cs \<le> 2"
proof -
  from assms obtain v tp rs where "py_slice_to 2 v = Inr tp" "py_iter tp = Inr rs"
    "process_all repr rs = Inr cs"
    by (auto simp: search_overseerr_def py_bind_Inr_iff)
  then show ?thesis
    using slice_iter_length [of 2 v tp rs] process_all_length [of repr rs cs] by simp
qed

lemma search_well_typed:
  assumes "is_success resp" "json_body resp = Some (JObj body)"
    "dict_get body ''results'' (JArr []) = JArr rs" "list_all well_typed_result rs"
  shows "\<exists>cs. search_overseerr repr (Inr resp) mt = Inr cs \<and>
           map Inr cs = map (process_result repr)
             (take 2 (filter (\<lambda>r. mt = [] \<or> py_get r ''mediaType'' JNull = Inr (JStr mt)) rs))"
proof -
  let ?kept = "filter (\<lambda>r. mt = [] \<or> py_get r ''mediaType'' JNull = Inr (JStr mt)) rs"
  have wt: "list_all well_typed_result (take 2 ?kept)"
    using assms(4) by (auto simp: list_all_iff dest: in_set_takeD)
  have "search_overseerr repr (Inr resp) mt = process_all repr (take 2 ?kept)"
  proof (cases "mt = []")
    case True
    then show ?thesis
      using assms by (simp add: search_overseerr_def)
  next
    case False
    then show ?thesis
      using assms by (simp add: search_overseerr_def filter_media_type_dicts)
  qed
  then show ?thesis
    using process_all_ok [OF wt, of repr] by simp
qed

lemma derive_status_codes:
  assumes "dict_get mi ''status'' JNull = code_json a"
    and "dict_get mi ''status4k'' JNull = code_json b"
  shows "derive_status (JObj mi) = Inr (spec_status a b)"
proof (cases "mi = []")
  case True
  with assms have "a = None" "b = None"
    by (auto simp: dict_get_def code_json_def split: option.splits)
  with True show ?thesis
    by (simp add: derive_status_def spec_status_def)
next
  case False
  with assms show ?thesis
    by (cases a; cases b) (auto simp: derive_status_def spec_status_def code_json_def)
qed

lemma process_result_fields:
  assumes "process_result repr (JObj kvs) = Inr c"
  shows "\<exists>st yr. derive_status (dict_get kvs ''mediaInfo'' JNull) = Inr st \<and>
           py_slice_to 4 (dict_get kvs ''releaseDate'' (JStr [])) = Inr yr \<and>
           py_get c ''status'' JNull = Inr (JStr st) \<and> py_get c ''year'' JNull = Inr yr"
  using assms by (auto simp: process_result_def py_bind_Inr_iff dict_get_def)

section \<open>The action token\<close>

text \<open>
  C1. A tv offer with a positive media id and one to five distinct seasons between 1 and 99
  gets a confirm button whose callback data starts with the request prefix and is parsed
  by the button handler back into the same media type, the same media id and the same set
  of seasons.
\<close>

theorem token_round_trip:
  assumes "action so = Some ''offer_request''" and "media_type so = Some ''tv''"
    and "media_id so = Some mid" and "0 < mid"
    and "seasons so = Some ss" and "distinct ss" and "1 \<le> length ss" and "length ss \<le> 5"
    and "\<forall>s\<in>set ss. 1 \<le> s \<and> s \<le> 99"
  shows "\<exists>label cd ss'.
           offer_keyboard so = Some [[(label, cd)], [(''No, cancel'', ''cancel_request'')]] \<and>
           py_startswith cd ''request_'' \<and>
           parse_callback cd = Inr (''tv'', mid, Some ss') \<and>
           set ss' = set ss"
proof -
  let ?cd = "''request_'' @ ''tv'' @ ''_'' @ py_str_int mid @ ''_'' @
              py_join ''-'' (map py_str_int (sort ss))"
  have ne: "ss \<noteq> []" using assms(7) by auto
  have kb: "offer_keyboard so =
    Some [[(''Yes, request season(s) '' @ py_join '', '' (map py_str_int (sort ss)), ?cd)],
          [(''No, cancel'', ''cancel_request'')]]"
    using assms ne by (intro offer_keyboard_tv_seasons) auto
  have "set (sort ss) = set ss"
    by simp
  then have "sort ss \<noteq> []"
    using ne by (metis set_empty)
  moreover have "\<forall>n\<in>set (sort ss). 0 \<le> n"
    using assms(9) by auto
  ultimately have pc: "parse_callback ?cd = Inr (''tv'', mid, Some (sort ss))"
    by (rule parse_callback_seasons)
  have sw: "py_startswith ?cd ''request_''"
    by (simp add: py_startswith_def)
  show ?thesis
    using kb pc sw by (intro exI [of _ "sort ss"] exI conjI) (assumption | simp)+
qed

theorem token_round_trip_witness:
  "\<exists>label cd ss'.
     offer_keyboard \<lparr>answer = ''Found it.'', action = Some ''offer_request'', media_id = Some 77,
       media_type = Some ''tv'', seasons = Some [3, 1], poster_url = None\<rparr> =
       Some [[(label, cd)], [(''No, cancel'', ''cancel_request'')]] \<and>
     py_startswith cd ''request_'' \<and>
     parse_callback cd = Inr (''tv'', 77, Some ss') \<and>
     set ss' = {3, 1}"
  using token_round_trip [of "\<lparr>answer = ''Found it.'', action = Some ''offer_request'',
       media_id = Some 77, media_type = Some ''tv'', seasons = Some [3, 1],
       poster_url = None\<rparr>" 77 "[3, 1]"]
  by simp

text \<open>
  C6. For an offer with media type movie or tv and a positive media id, the callback data of
  the confirm button is the prefix, the media type and the media id, followed by the
  seasons in ascending order joined by dashes exactly when the media type is tv and the
  season set is not empty.
\<close>

theorem encoding_format:
  assumes "action so = Some ''offer_request''"
    and "media_type so = Some mt" and "mt = ''movie'' \<or> mt = ''tv''"
    and "media_id so = Some mid" and "0 < mid"
    and "(case seasons so of None \<Rightarrow> [] | Some xs \<Rightarrow> xs) = ss" and "distinct ss"
  shows "\<exists>label. offer_keyboard so =
           Some [[(label, spec_encode mt mid (set ss))], [(''No, cancel'', ''cancel_request'')]]"
proof (cases "mt = ''tv'' \<and> ss \<noteq> []")
  case True
  then have "seasons so = Some ss"
    using assms(6) by (cases "seasons so") auto
  then have "offer_keyboard so =
    Some [[(''Yes, request season(s) '' @ py_join '', '' (map py_str_int (sort ss)),
            ''request_'' @ ''tv'' @ ''_'' @ py_str_int mid @ ''_'' @
              py_join ''-'' (map py_str_int (sort ss)))],
          [(''No, cancel'', ''cancel_request'')]]"
    using assms True by (intro offer_keyboard_tv_seasons) auto
  moreover have "spec_encode mt mid (set ss) =
      ''request_'' @ ''tv'' @ ''_'' @ py_str_int mid @ ''_'' @
              py_join ''-'' (map py_str_int (sort ss))"
    using True assms(7) by (simp add: spec_encode_def sorted_list_of_set_distinct)
  ultimately show ?thesis by simp
next
  case False
  then have "mt \<noteq> ''tv'' \<or> seasons so = None \<or> seasons so = Some []"
    using assms(6) by (cases "seasons so") auto
  moreover have "mt \<noteq> []" using assms(3) by auto
  ultimately have "offer_keyboard so =
    Some [[(''Yes, request this '' @ mt, ''request_'' @ mt @ ''_'' @ py_str_int mid)],
          [(''No, cancel'', ''cancel_request'')]]"
    using assms by (intro offer_keyboard_plain) auto
  moreover have "spec_encode mt mid (set ss) = ''request_'' @ mt @ ''_'' @ py_str_int mid"
    using False by (auto simp: spec_encode_def)
  ultimately show ?thesis by simp
qed

theorem encoding_format_witness:
  "(\<exists>label. offer_keyboard \<lparr>answer = ''Found it.'', action = Some ''offer_request'',
       media_id = Some 123, media_type = Some ''movie'', seasons = None, poster_url = None\<rparr> =
     Some [[(label, ''request_movie_123'')], [(''No, cancel'', ''cancel_request'')]]) \<and>
   (\<exists>label. offer_keyboard \<lparr>answer = ''Found it.'', action = Some ''offer_request'',
       media_id = Some 77, media_type = Some ''tv'', seasons = Some [3, 1], poster_url = None\<rparr> =
     Some [[(label, ''request_tv_77_1-3'')], [(''No, cancel'', ''cancel_request'')]])"
proof -
  have a: "spec_encode ''movie'' 123 {} = ''request_movie_123''"
    by code_simp
  have b: "spec_encode ''tv'' 77 {3, 1} = ''request_tv_77_1-3''"
    by code_simp
  show ?thesis
    using encoding_format [of "\<lparr>answer = ''Found it.'', action = Some ''offer_request'',
       media_id = Some 123, media_type = Some ''movie'', seasons = None, poster_url = None\<rparr>"
       "''movie''" 123 "[]"]
      encoding_format [of "\<lparr>answer = ''Found it.'', action = Some ''offer_request'',
       media_id = Some 77, media_type = Some ''tv'', seasons = Some [3, 1], poster_url = None\<rparr>"
       "''tv''" 77 "[3, 1]"]
    by (simp add: a b)
qed

text \<open>
  C2, as the code has it. The handler posts nothing for a callback string that does not
  start with the request prefix, that has fewer than three segments between underscores,
  or whose third segment \<^verbatim>\<open>int\<close> does not accept; in the last two cases it shows the error
  text. With the prefix, an id segment that \<^verbatim>\<open>int\<close> accepts, and a media type other than tv
  or no fourth segment, the token is accepted whatever the id, the media type and any
  further segment are, and the request for that id and type is posted without seasons.
\<close>

theorem decode_validation:
  "(\<not> py_startswith s ''request_'' \<longrightarrow> fst (button_callback repr post (Some s)) = []) \<and>
   (py_startswith s ''request_'' \<and> length (py_split CHR ''_'' s) < 3 \<longrightarrow>
      parse_callback s = Inl IndexError \<and>
      button_callback repr post (Some s) =
        ([], Some ''Sorry, there was an error processing your request.'')) \<and>
   (py_startswith s ''request_'' \<and> py_split CHR ''_'' s = p0 # mt # idseg # rest \<and>
    py_int idseg = Inl e \<longrightarrow>
      parse_callback s = Inl e \<and>
      button_callback repr post (Some s) =
        ([], Some ''Sorry, there was an error processing your request.'')) \<and>
   (py_startswith s ''request_'' \<and> py_split CHR ''_'' s = p0 # mt # idseg # rest \<and>
    py_int idseg = Inr mid \<and> (mt \<noteq> ''tv'' \<or> rest = []) \<longrightarrow>
      parse_callback s = Inr (mt, mid, None) \<and>
      fst (button_callback repr post (Some s)) =
        [[(''mediaId'', JInt mid), (''mediaType'', JStr mt)]])"
proof (intro conjI impI)
  assume "\<not> py_startswith s ''request_''"
  then show "fst (button_callback repr post (Some s)) = []"
    by (rule button_callback_no_prefix)
next
  assume a: "py_startswith s ''request_'' \<and> length (py_split CHR ''_'' s) < 3"
  then show p: "parse_callback s = Inl IndexError"
    by (auto simp: parse_callback_def split: list.splits)
  from a p show "button_callback repr post (Some s) =
        ([], Some ''Sorry, there was an error processing your request.'')"
    by (intro button_callback_parse_error) auto
next
  assume a: "py_startswith s ''request_'' \<and> py_split CHR ''_'' s = p0 # mt # idseg # rest \<and>
    py_int idseg = Inl e"
  then show p: "parse_callback s = Inl e"
    by (simp add: parse_callback_def)
  from a p show "button_callback repr post (Some s) =
        ([], Some ''Sorry, there was an error processing your request.'')"
    by (intro button_callback_parse_error) auto
next
  assume a: "py_startswith s ''request_'' \<and> py_split CHR ''_'' s = p0 # mt # idseg # rest \<and>
    py_int idseg = Inr mid \<and> (mt \<noteq> ''tv'' \<or> rest = [])"
  then show p: "parse_callback s = Inr (mt, mid, None)"
    by (auto simp: parse_callback_def split: list.splits)
  from a p have "fst (button_callback repr post (Some s)) = [request_payload mid mt None]"
    by (intro button_callback_parsed) auto
  with a show "fst (button_callback repr post (Some s)) =
        [[(''mediaId'', JInt mid), (''mediaType'', JStr mt)]]"
    by (simp add: request_payload_def seasons_given_def)
qed

theorem decode_validation_witness:
  "fst (button_callback (\<lambda>v. []) (\<lambda>p. Inl TransportError) (Some ''play_tv_7'')) = [] \<and>
   parse_callback ''request_tv'' = Inl IndexError \<and>
   button_callback (\<lambda>v. []) (\<lambda>p. Inl TransportError) (Some ''request_tv'') =
     ([], Some ''Sorry, there was an error processing your request.'') \<and>
   parse_callback ''request_tv_seven'' = Inl ValueError \<and>
   button_callback (\<lambda>v. []) (\<lambda>p. Inl TransportError) (Some ''request_tv_seven'') =
     ([], Some ''Sorry, there was an error processing your request.'') \<and>
   parse_callback ''request_book_0_1-3'' = Inr (''book'', 0, None) \<and>
   fst (button_callback (\<lambda>v. []) (\<lambda>p. Inl TransportError) (Some ''request_book_0_1-3'')) =
     [[(''mediaId'', JInt 0), (''mediaType'', JStr ''book'')]]"
proof -
  have sw: "\<not> py_startswith ''play_tv_7'' ''request_''" "py_startswith ''request_tv'' ''request_''"
    "py_startswith ''request_tv_seven'' ''request_''"
    "py_startswith ''request_book_0_1-3'' ''request_''"
    by (simp_all add: py_startswith_def)
  have sp: "py_split CHR ''_'' ''request_tv'' = [''request'', ''tv'']"
    "py_split CHR ''_'' ''request_tv_seven'' = [''request'', ''tv'', ''seven'']"
    "py_split CHR ''_'' ''request_book_0_1-3'' = [''request'', ''book'', ''0'', ''1-3'']"
    by code_simp+
  have pi: "py_int ''seven'' = Inl ValueError" "py_int ''0'' = Inr 0"
    by code_simp+
  show ?thesis
    using decode_validation [of "''play_tv_7''" "\<lambda>v. []" "\<lambda>p. Inl TransportError"]
      decode_validation [of "''request_tv''" "\<lambda>v. []" "\<lambda>p. Inl TransportError"]
      decode_validation [of "''request_tv_seven''" "\<lambda>v. []" "\<lambda>p. Inl TransportError"
        "''request''" "''tv''" "''seven''" "[]" ValueError]
      decode_validation [of "''request_book_0_1-3''" "\<lambda>v. []" "\<lambda>p. Inl TransportError"
        "''request''" "''book''" "''0''" "[''1-3'']" _ 0]
    by (simp add: sw sp pi)
qed

text \<open>
  Tokens the handler accepts: a fourth segment on a movie token, a media type that is
  neither movie nor tv, and ids that are zero or negative.
\<close>

theorem decode_accepts_unvalidated:
  "parse_callback ''request_movie_12_1-3'' = Inr (''movie'', 12, None) \<and>
   parse_callback ''request_book_12'' = Inr (''book'', 12, None) \<and>
   parse_callback ''request_tv_0'' = Inr (''tv'', 0, None) \<and>
   parse_callback ''request_tv_-5'' = Inr (''tv'', - 5, None) \<and>
   fst (button_callback (\<lambda>v. []) (\<lambda>p. Inl TransportError) (Some ''request_movie_12_1-3'')) =
     [[(''mediaId'', JInt 12), (''mediaType'', JStr ''movie'')]] \<and>
   fst (button_callback (\<lambda>v. []) (\<lambda>p. Inl TransportError) (Some ''request_book_12'')) =
     [[(''mediaId'', JInt 12), (''mediaType'', JStr ''book'')]] \<and>
   fst (button_callback (\<lambda>v. []) (\<lambda>p. Inl TransportError) (Some ''request_tv_0'')) =
     [[(''mediaId'', JInt 0), (''mediaType'', JStr ''tv'')]]"
  by code_simp

section \<open>The request and the cancellation\<close>

text \<open>
  C8. The payload posted by \<^verbatim>\<open>request_overseerr\<close> has the key \<^verbatim>\<open>seasons\<close> exactly when the media
  type is tv and a non-empty season list is given; otherwise it holds \<^verbatim>\<open>mediaId\<close> and
  \<^verbatim>\<open>mediaType\<close> only.
\<close>

theorem request_payload_shape:
  "fst (request_overseerr repr post mid mt ss) =
     (if mt = ''tv'' \<and> ss \<noteq> None \<and> ss \<noteq> Some []
      then [(''mediaId'', JInt mid), (''mediaType'', JStr mt),
            (''seasons'', JArr (map JInt (the ss)))]
      else [(''mediaId'', JInt mid), (''mediaType'', JStr mt)]) \<and>
   (''seasons'' \<in> fst ` set (fst (request_overseerr repr post mid mt ss))) =
     (mt = ''tv'' \<and> ss \<noteq> None \<and> ss \<noteq> Some [])"
  by (cases ss) (auto simp: request_overseerr_def request_payload_def seasons_given_def Let_def)

theorem request_payload_shape_witness:
  "fst (request_overseerr (\<lambda>v. []) (\<lambda>p. Inl TransportError) 77 ''tv'' (Some [1, 3])) =
     [(''mediaId'', JInt 77), (''mediaType'', JStr ''tv''), (''seasons'', JArr [JInt 1, JInt 3])] \<and>
   fst (request_overseerr (\<lambda>v. []) (\<lambda>p. Inl TransportError) 77 ''tv'' None) =
     [(''mediaId'', JInt 77), (''mediaType'', JStr ''tv'')] \<and>
   fst (request_overseerr (\<lambda>v. []) (\<lambda>p. Inl TransportError) 123 ''movie'' (Some [1, 3])) =
     [(''mediaId'', JInt 123), (''mediaType'', JStr ''movie'')]"
  using request_payload_shape [of "\<lambda>v. []" "\<lambda>p. Inl TransportError" 77 "''tv''" "Some [1, 3]"]
    request_payload_shape [of "\<lambda>v. []" "\<lambda>p. Inl TransportError" 77 "''tv''" None]
    request_payload_shape [of "\<lambda>v. []" "\<lambda>p. Inl TransportError" 123 "''movie''" "Some [1, 3]"]
  by simp

text \<open>
  C9. On the cancellation token the handler posts nothing to the backend and replaces the
  message by the fixed text.
\<close>

theorem cancel_no_backend_call:
  "button_callback repr post (Some ''cancel_request'') = ([], Some ''Request cancelled.'')"
  by (simp add: button_callback_def py_startswith_def)

section \<open>The search results\<close>

text \<open>
  C3, on the code. For a response that is not a success the tool returns a list holding the
  body text of the response, not the empty list its docstring announces; when the call
  itself raises, the exception leaves the tool.
\<close>

theorem search_failure_returns_body:
  "search_overseerr repr
     (Inr \<lparr>is_success = False, status_code = 500, body_text = ''Internal Server Error'',
           json_body = None\<rparr>) mt = Inr [JStr ''Internal Server Error''] \<and>
   search_overseerr repr (Inl TransportError) mt = Inl TransportError"
  by (simp add: search_overseerr_def)

text \<open>
  C4. For status codes \<open>status\<close> and \<open>status4k\<close> of a result's \<^verbatim>\<open>mediaInfo\<close>, each an integer
  or null, the status of the candidate is available if either code is 5, else requested if
  either is 2, 3 or 4, else not requested. A result whose \<^verbatim>\<open>mediaInfo\<close> is absent or null
  has no codes, and its candidate is not requested.
\<close>

theorem status_derivation:
  "(dict_get mi ''status'' JNull = code_json a \<and> dict_get mi ''status4k'' JNull = code_json b \<longrightarrow>
      derive_status (JObj mi) = Inr (spec_status a b) \<and>
      (dict_get kvs ''mediaInfo'' JNull = JObj mi \<and> process_result repr (JObj kvs) = Inr c \<longrightarrow>
         py_get c ''status'' JNull = Inr (JStr (spec_status a b)))) \<and>
   derive_status JNull = Inr ''Not Requested'' \<and>
   spec_status None None = ''Not Requested'' \<and>
   (dict_get kvs ''mediaInfo'' JNull = JNull \<and> process_result repr (JObj kvs) = Inr c \<longrightarrow>
      py_get c ''status'' JNull = Inr (JStr ''Not Requested'')) \<and>
   (\<not> truthy v \<longrightarrow> derive_status v = Inr ''Not Requested'')"
proof (intro conjI impI)
  assume codes: "dict_get mi ''status'' JNull = code_json a \<and>
    dict_get mi ''status4k'' JNull = code_json b"
  then show d: "derive_status (JObj mi) = Inr (spec_status a b)"
    by (intro derive_status_codes) auto
  assume "dict_get kvs ''mediaInfo'' JNull = JObj mi \<and> process_result repr (JObj kvs) = Inr c"
  with d show "py_get c ''status'' JNull = Inr (JStr (spec_status a b))"
    using process_result_fields [of repr kvs c] by auto
next
  show "derive_status JNull = Inr ''Not Requested''"
    by (simp add: derive_status_def)
next
  show "spec_status None None = ''Not Requested''"
    by (simp add: spec_status_def)
next
  assume "dict_get kvs ''mediaInfo'' JNull = JNull \<and> process_result repr (JObj kvs) = Inr c"
  then show "py_get c ''status'' JNull = Inr (JStr ''Not Requested'')"
    using process_result_fields [of repr kvs c] by (auto simp: derive_status_def)
next
  assume "\<not> truthy v"
  then show "derive_status v = Inr ''Not Requested''"
    by (simp add: derive_status_def)
qed

theorem status_derivation_witness:
  "derive_status (JObj [(''status'', JInt 5), (''status4k'', JNull)]) = Inr ''Available'' \<and>
   derive_status (JObj [(''status'', JInt 2), (''status4k'', JNull)]) = Inr ''Requested'' \<and>
   derive_status (JObj [(''status'', JNull), (''status4k'', JNull)]) = Inr ''Not Requested'' \<and>
   derive_status (JObj [(''status'', JInt 1), (''status4k'', JInt 5)]) = Inr ''Available'' \<and>
   derive_status (JObj []) = Inr ''Not Requested'' \<and>
   (\<exists>c. process_result (\<lambda>v. [])
           (JObj [(''id'', JInt 9),
                  (''mediaInfo'', JObj [(''status'', JInt 1), (''status4k'', JInt 5)])]) = Inr c \<and>
        py_get c ''status'' JNull = Inr (JStr ''Available'')) \<and>
   (\<exists>c. process_result (\<lambda>v. []) (JObj [(''id'', JInt 9)]) = Inr c \<and>
        py_get c ''status'' JNull = Inr (JStr ''Not Requested'')) \<and>
   (\<exists>c. process_result (\<lambda>v. []) (JObj [(''id'', JInt 9), (''mediaInfo'', JNull)]) = Inr c \<and>
        py_get c ''status'' JNull = Inr (JStr ''Not Requested''))"
proof -
  let ?mi = "[(''status'', JInt 1), (''status4k'', JInt 5)]"
  let ?kvs = "[(''id'', JInt 9), (''mediaInfo'', JObj ?mi)]"
  let ?absent = "[(''id'', JInt 9)]"
  let ?null = "[(''id'', JInt 9), (''mediaInfo'', JNull)]"
  obtain c where c: "process_result (\<lambda>v. []) (JObj ?kvs) = Inr c"
    using well_typed_process [of "JObj ?kvs" "\<lambda>v. []"] by (auto simp: dict_get_def)
  obtain ca where ca: "process_result (\<lambda>v. []) (JObj ?absent) = Inr ca"
    using well_typed_process [of "JObj ?absent" "\<lambda>v. []"] by (auto simp: dict_get_def)
  obtain cn where cn: "process_result (\<lambda>v. []) (JObj ?null) = Inr cn"
    using well_typed_process [of "JObj ?null" "\<lambda>v. []"] by (auto simp: dict_get_def)
  have "py_get c ''status'' JNull = Inr (JStr ''Available'')"
    using status_derivation [of ?mi "Some 1" "Some 5" ?kvs "\<lambda>v. []" c] c
    by (simp add: dict_get_def code_json_def spec_status_def)
  with c have with_info: "\<exists>c. process_result (\<lambda>v. []) (JObj ?kvs) = Inr c \<and>
        py_get c ''status'' JNull = Inr (JStr ''Available'')"
    by blast
  have "py_get ca ''status'' JNull = Inr (JStr ''Not Requested'')"
    using status_derivation [of _ _ _ ?absent "\<lambda>v. []" ca] ca
    by (simp add: dict_get_def)
  with ca have absent: "\<exists>c. process_result (\<lambda>v. []) (JObj ?absent) = Inr c \<and>
        py_get c ''status'' JNull = Inr (JStr ''Not Requested'')"
    by blast
  have "py_get cn ''status'' JNull = Inr (JStr ''Not Requested'')"
    using status_derivation [of _ _ _ ?null "\<lambda>v. []" cn] cn
    by (simp add: dict_get_def)
  with cn have null: "\<exists>c. process_result (\<lambda>v. []) (JObj ?null) = Inr c \<and>
        py_get c ''status'' JNull = Inr (JStr ''Not Requested'')"
    by blast
  have codes: "derive_status (JObj [(''status'', JInt 5), (''status4k'', JNull)]) = Inr ''Available''"
    "derive_status (JObj [(''status'', JInt 2), (''status4k'', JNull)]) = Inr ''Requested''"
    "derive_status (JObj [(''status'', JNull), (''status4k'', JNull)]) = Inr ''Not Requested''"
    "derive_status (JObj ?mi) = Inr ''Available''"
    "derive_status (JObj []) = Inr ''Not Requested''"
    using status_derivation [of "[(''status'', JInt 5), (''status4k'', JNull)]" "Some 5" None]
      status_derivation [of "[(''status'', JInt 2), (''status4k'', JNull)]" "Some 2" None]
      status_derivation [of "[(''status'', JNull), (''status4k'', JNull)]" None None]
      status_derivation [of ?mi "Some 1" "Some 5"]
      status_derivation [of _ _ _ _ _ _ "JObj []"]
    by (simp_all add: dict_get_def code_json_def spec_status_def)
  show ?thesis
    using codes with_info absent null by blast
qed

text \<open>
  C7. On a successful response the tool never returns more than two candidates; and when
  the body is a dict whose results are well-typed, it returns the candidates made from the
  first two results left by the media type filter (no filter for an empty media type), in
  the backend's order.
\<close>

theorem search_truncation:
  assumes "is_success resp"
  shows "(search_overseerr repr (Inr resp) mt = Inr cs \<longrightarrow> length cs \<le> 2) \<and>
         (json_body resp = Some (JObj body) \<and> dict_get body ''results'' (JArr []) = JArr rs \<and>
          list_all well_typed_result rs \<longrightarrow>
            (\<exists>cs'. search_overseerr repr (Inr resp) mt = Inr cs' \<and>
               map Inr cs' = map (process_result repr)
                 (take 2 (filter (\<lambda>r. mt = [] \<or> py_get r ''mediaType'' JNull = Inr (JStr mt)) rs))))"
  using assms search_length [of repr resp mt cs] search_well_typed [of resp body rs repr mt]
  by blast

theorem search_truncation_witness:
  "\<exists>cs. search_overseerr (\<lambda>v. [])
          (Inr \<lparr>is_success = True, status_code = 200, body_text = [],
                json_body = Some (JObj [(''results'', JArr
                  [JObj [(''id'', JInt 1), (''mediaType'', JStr ''tv'')],
                   JObj [(''id'', JInt 2), (''mediaType'', JStr ''movie'')],
                   JObj [(''id'', JInt 3), (''mediaType'', JStr ''movie'')],
                   JObj [(''id'', JInt 4), (''mediaType'', JStr ''movie'')]])])\<rparr>)
          ''movie'' = Inr cs \<and>
        length cs \<le> 2 \<and>
        map Inr cs = map (process_result (\<lambda>v. []))
          [JObj [(''id'', JInt 2), (''mediaType'', JStr ''movie'')],
           JObj [(''id'', JInt 3), (''mediaType'', JStr ''movie'')]]"
proof -
  let ?rs = "[JObj [(''id'', JInt 1), (''mediaType'', JStr ''tv'')],
                   JObj [(''id'', JInt 2), (''mediaType'', JStr ''movie'')],
                   JObj [(''id'', JInt 3), (''mediaType'', JStr ''movie'')],
                   JObj [(''id'', JInt 4), (''mediaType'', JStr ''movie'')]]"
  let ?resp = "\<lparr>is_success = True, status_code = 200, body_text = [],
                json_body = Some (JObj [(''results'', JArr ?rs)])\<rparr>"
  have wt: "list_all well_typed_result ?rs"
    by (simp add: dict_get_def)
  have "\<exists>cs'. search_overseerr (\<lambda>v. []) (Inr ?resp) ''movie'' = Inr cs' \<and>
               map Inr cs' = map (process_result (\<lambda>v. []))
                 (take 2 (filter (\<lambda>r. ''movie'' = [] \<or>
                    py_get r ''mediaType'' JNull = Inr (JStr ''movie'')) ?rs))"
    using search_truncation [of ?resp "\<lambda>v. []" "''movie''" _ "[(''results'', JArr ?rs)]" ?rs] wt
    by (simp add: dict_get_def)
  then obtain cs where cs: "search_overseerr (\<lambda>v. []) (Inr ?resp) ''movie'' = Inr cs"
    "map Inr cs = map (process_result (\<lambda>v. []))
                 (take 2 (filter (\<lambda>r. ''movie'' = [] \<or>
                    py_get r ''mediaType'' JNull = Inr (JStr ''movie'')) ?rs))"
    by blast
  have "length cs \<le> 2"
    using search_truncation [of ?resp "\<lambda>v. []" "''movie''" cs] cs(1) by simp
  moreover have "map Inr cs = map (process_result (\<lambda>v. []))
          [JObj [(''id'', JInt 2), (''mediaType'', JStr ''movie'')],
           JObj [(''id'', JInt 3), (''mediaType'', JStr ''movie'')]]"
    using cs(2) by (simp add: dict_get_def)
  ultimately show ?thesis
    using cs(1) by blast
qed

text \<open>
  C10. The year of a candidate is the first four characters of the result's
  \<^verbatim>\<open>releaseDate\<close> string, whatever they are, and the empty string when the key is missing;
  a well-typed result is always turned into a candidate.
\<close>

theorem year_field:
  "(process_result repr (JObj kvs) = Inr c \<and> map_of kvs ''releaseDate'' = Some (JStr s) \<longrightarrow>
      py_get c ''year'' JNull = Inr (JStr (take 4 s))) \<and>
   (process_result repr (JObj kvs) = Inr c \<and> map_of kvs ''releaseDate'' = None \<longrightarrow>
      py_get c ''year'' JNull = Inr (JStr [])) \<and>
   (well_typed_result (JObj kvs) \<longrightarrow> (\<exists>c'. process_result repr (JObj kvs) = Inr c'))"
  using process_result_fields [of repr kvs c] well_typed_process [of "JObj kvs" repr]
  by (auto simp: dict_get_def)

theorem year_field_witness:
  "(\<exists>c. process_result (\<lambda>v. [])
           (JObj [(''id'', JInt 9), (''releaseDate'', JStr ''2021-03-04'')]) = Inr c \<and>
        py_get c ''year'' JNull = Inr (JStr ''2021'')) \<and>
   (\<exists>c. process_result (\<lambda>v. [])
           (JObj [(''id'', JInt 9), (''releaseDate'', JStr ''soon-ish'')]) = Inr c \<and>
        py_get c ''year'' JNull = Inr (JStr ''soon'')) \<and>
   (\<exists>c. process_result (\<lambda>v. []) (JObj [(''id'', JInt 9)]) = Inr c \<and>
        py_get c ''year'' JNull = Inr (JStr []))"
proof -
  let ?a = "[(''id'', JInt 9), (''releaseDate'', JStr ''2021-03-04'')]"
  let ?b = "[(''id'', JInt 9), (''releaseDate'', JStr ''soon-ish'')]"
  let ?c = "[(''id'', JInt 9)]"
  obtain ca where ca: "process_result (\<lambda>v. []) (JObj ?a) = Inr ca"
    using year_field [of "\<lambda>v. []" ?a] by (auto simp: dict_get_def)
  obtain cb where cb: "process_result (\<lambda>v. []) (JObj ?b) = Inr cb"
    using year_field [of "\<lambda>v. []" ?b] by (auto simp: dict_get_def)
  obtain cc where cc: "process_result (\<lambda>v. []) (JObj ?c) = Inr cc"
    using year_field [of "\<lambda>v. []" ?c] by (auto simp: dict_get_def)
  have "py_get ca ''year'' JNull = Inr (JStr ''2021'')"
    using year_field [of "\<lambda>v. []" ?a ca "''2021-03-04''"] ca by simp
  moreover have "py_get cb ''year'' JNull = Inr (JStr ''soon'')"
    using year_field [of "\<lambda>v. []" ?b cb "''soon-ish''"] cb by simp
  moreover have "py_get cc ''year'' JNull = Inr (JStr [])"
    using year_field [of "\<lambda>v. []" ?c cc] cc by simp
  ultimately show ?thesis
    using ca cb cc by blast
qed

end
